theory Spec2Isabelle
  imports Main
begin

section \<open>Python values used by snakemq_pubsub\<close>

text \<open>
  A Python \<open>str\<close> is represented by its UTF-8 encoding, a list of bytes (\<open>string\<close>).
  The code only compares strings, splits them at the space character, joins them with
  a space and tests an ASCII prefix. In well-formed UTF-8 every byte below 128 is the
  ASCII character itself, so these operations give the same result on the bytes as on
  the code points. \<open>bytes.decode("utf-8")\<close> is then the check that the bytes are
  well formed (it raises UnicodeDecodeError otherwise) and \<open>str.encode("utf-8")\<close>
  returns the representation.

  A Python \<open>set\<close> is represented by the duplicate-free list of its elements in the
  order a \<open>for\<close> loop visits them. Theorems about a registry quantify over every such
  list, so they hold for whatever order the interpreter picks.
\<close>

type_synonym str = string
type_synonym ident = string
type_synonym channel = string
type_synonym 'a pyset = "'a list"

datatype py_error = KeyError | UnicodeDecodeError

text \<open>
  A call either returns or raises. The state is mutated in place, so a raise keeps the
  mutations made before it: both constructors carry the state reached.
\<close>

datatype 'a outcome = Returned (final: 'a) | Raised (exn: py_error) (final: 'a)

subsection \<open>bytes.decode("utf-8") and str.encode("utf-8")\<close>

text \<open>
  Well-formed UTF-8 as the strict decoder accepts it: a byte below 128; a lead byte
  C2..DF and one continuation byte; a lead byte E0..EF and two (the first is A0..BF
  after E0, which excludes overlong forms, and 80..9F after ED, which excludes
  surrogates); a lead byte F0..F4 and three (the first is 90..BF after F0 and 80..8F
  after F4, which ends at U+10FFFF).
\<close>

definition cont :: "nat \<Rightarrow> bool" where
  "cont c = (128 \<le> c \<and> c \<le> 191)"

definition lead2 :: "nat \<Rightarrow> bool" where
  "lead2 b = (194 \<le> b \<and> b \<le> 223)"

definition lead3 :: "nat \<Rightarrow> bool" where
  "lead3 b = (224 \<le> b \<and> b \<le> 239)"

definition lead4 :: "nat \<Rightarrow> bool" where
  "lead4 b = (240 \<le> b \<and> b \<le> 244)"

definition second3 :: "nat \<Rightarrow> nat \<Rightarrow> bool" where
  "second3 b c =
     (if b = 224 then 160 \<le> c \<and> c \<le> 191
      else if b = 237 then 128 \<le> c \<and> c \<le> 159
      else cont c)"

definition second4 :: "nat \<Rightarrow> nat \<Rightarrow> bool" where
  "second4 b c =
     (if b = 240 then 144 \<le> c \<and> c \<le> 191
      else if b = 244 then 128 \<le> c \<and> c \<le> 143
      else cont c)"

fun utf8_wf :: "nat list \<Rightarrow> bool" where
  "utf8_wf [] = True"
| "utf8_wf (b # bs) =
     (if b < 128 then utf8_wf bs
      else if lead2 b then
        (case bs of c1 # r \<Rightarrow> cont c1 \<and> utf8_wf r | _ \<Rightarrow> False)
      else if lead3 b then
        (case bs of c1 # c2 # r \<Rightarrow> second3 b c1 \<and> cont c2 \<and> utf8_wf r | _ \<Rightarrow> False)
      else if lead4 b then
        (case bs of c1 # c2 # c3 # r \<Rightarrow> second4 b c1 \<and> cont c2 \<and> cont c3 \<and> utf8_wf r
         | _ \<Rightarrow> False)
      else False)"

definition is_str :: "string \<Rightarrow> bool" where
  "is_str s = utf8_wf (map of_char s)"

definition decode_utf8 :: "string \<Rightarrow> py_error + str" where
  "decode_utf8 d = (if is_str d then Inr d else Inl UnicodeDecodeError)"

definition encode_utf8 :: "str \<Rightarrow> string" where
  "encode_utf8 t = t"

subsection \<open>str.startswith, str.split(" ") and " ".join\<close>

fun startswith :: "str \<Rightarrow> str \<Rightarrow> bool" where
  "startswith s [] = True"
| "startswith [] (p # ps) = False"
| "startswith (c # cs) (p # ps) = (c = p \<and> startswith cs ps)"

text \<open>
  \<open>s.split(" ")\<close> with an explicit separator cuts at every single space and keeps the
  empty fields: \<open>"a  b".split(" ")\<close> is \<open>["a", "", "b"]\<close> and \<open>"".split(" ")\<close> is \<open>[""]\<close>.
\<close>

fun str_split :: "str \<Rightarrow> str list" where
  "str_split [] = [[]]"
| "str_split (c # cs) =
     (if c = CHR '' '' then [] # str_split cs
      else (case str_split cs of [] \<Rightarrow> [[c]] | w # ws \<Rightarrow> (c # w) # ws))"

fun str_join :: "str list \<Rightarrow> str" where
  "str_join [] = []"
| "str_join [x] = x"
| "str_join (x # y # ys) = x @ CHR '' '' # str_join (y # ys)"

subsection \<open>set.add and set.remove\<close>

definition pyset_add :: "'a \<Rightarrow> 'a pyset \<Rightarrow> 'a pyset" where
  "pyset_add x s = (if x \<in> set s then s else s @ [x])"

definition pyset_remove :: "'a \<Rightarrow> 'a pyset \<Rightarrow> py_error + 'a pyset" where
  "pyset_remove x s = (if x \<in> set s then Inr (removeAll x s) else Inl KeyError)"

section \<open>The broker\<close>

text \<open>
  \<open>snakemq.message.Message(data, ttl)\<close>, and the record of a call
  \<open>messaging.send_message(ident, message)\<close>.
\<close>

record message =
  data :: string
  ttl :: nat

type_synonym send = "ident \<times> message"

text \<open>
  \<open>Broker.channels\<close> is assigned in the class body (``Class level variable'') and
  \<open>__init__\<close> never assigns \<open>self.channels\<close>; so \<open>self.channels\<close> reads the one
  dictionary of the class, for every instance. The state of the program therefore has
  one field for that dictionary and a list of the Broker objects created so far; a
  Broker reference is its position in the list. An instance keeps its identity, the
  listeners added to its link, and the messages handed to its messaging layer.
\<close>

type_synonym registry = "channel \<rightharpoonup> ident pyset"

record broker =
  broker_identity :: ident
  listeners :: "(string \<times> nat) list"
  sent :: "send list"

record world =
  Broker_channels :: registry
  brokers :: "broker list"

text \<open>The state after the class body has run (\<open>channels = {}\<close>) and before any Broker exists.\<close>

definition world_init :: world where
  "world_init = \<lparr>Broker_channels = Map.empty, brokers = []\<rparr>"

definition Broker_init :: "string \<Rightarrow> nat \<Rightarrow> ident \<Rightarrow> world \<Rightarrow> nat \<times> world" where
  "Broker_init broker_host broker_port identity w =
     (length (brokers w),
      w\<lparr>brokers := brokers w @
           [\<lparr>broker_identity = identity,
             listeners = [(broker_host, broker_port)],
             sent = []\<rparr>]\<rparr>)"

definition self_channels :: "world \<Rightarrow> nat \<Rightarrow> registry" where
  "self_channels w self = Broker_channels w"

definition send_message :: "nat \<Rightarrow> ident \<Rightarrow> message \<Rightarrow> world \<Rightarrow> world" where
  "send_message self dest m w =
     w\<lparr>brokers := (brokers w)[self := (brokers w ! self)\<lparr>sent := sent (brokers w ! self) @ [(dest, m)]\<rparr>]\<rparr>"

text \<open>The loop of the SUBSCRIBE branch, over \<open>enumerate(msg_split)\<close>.\<close>

fun subscribe_loop :: "ident \<Rightarrow> (nat \<times> str) list \<Rightarrow> registry \<Rightarrow> registry outcome" where
  "subscribe_loop ident [] chans = Returned chans"
| "subscribe_loop ident ((i, arg) # rest) chans =
     (if i \<noteq> 0 then
        (let channel = arg;
             chans1 = (if chans channel = None then chans(channel \<mapsto> []) else chans)
         in case chans1 channel of
              None \<Rightarrow> Raised KeyError chans1
            | Some subs \<Rightarrow> subscribe_loop ident rest (chans1(channel \<mapsto> pyset_add ident subs)))
      else subscribe_loop ident rest chans)"

text \<open>The loop of the UNSUBSCRIBE branch.\<close>

fun unsubscribe_loop :: "ident \<Rightarrow> (nat \<times> str) list \<Rightarrow> registry \<Rightarrow> registry outcome" where
  "unsubscribe_loop ident [] chans = Returned chans"
| "unsubscribe_loop ident ((i, arg) # rest) chans =
     (if i \<noteq> 0 then
        (let channel = arg
         in case chans channel of
              None \<Rightarrow> unsubscribe_loop ident rest chans
            | Some subs \<Rightarrow>
                (case pyset_remove ident subs of
                   Inl e \<Rightarrow> Raised e chans
                 | Inr subs' \<Rightarrow> unsubscribe_loop ident rest (chans(channel \<mapsto> subs'))))
      else unsubscribe_loop ident rest chans)"

text \<open>The fan-out loop of the PUBLISH branch, over the channel's set.\<close>

fun publish_loop :: "nat \<Rightarrow> str \<Rightarrow> ident list \<Rightarrow> world \<Rightarrow> world" where
  "publish_loop self pub_msg_text [] w = w"
| "publish_loop self pub_msg_text (connection # rest) w =
     (let pub_msg = \<lparr>data = encode_utf8 pub_msg_text, ttl = 60\<rparr>
      in publish_loop self pub_msg_text rest (send_message self connection pub_msg w))"

definition lift_chans :: "world \<Rightarrow> registry outcome \<Rightarrow> world outcome" where
  "lift_chans w r =
     (case r of
        Returned chans \<Rightarrow> Returned (w\<lparr>Broker_channels := chans\<rparr>)
      | Raised e chans \<Rightarrow> Raised e (w\<lparr>Broker_channels := chans\<rparr>))"

text \<open>\<open>Broker.on_recv(self, conn, ident, message)\<close>; \<open>conn\<close> is not used by the code.\<close>

definition on_recv :: "nat \<Rightarrow> ident \<Rightarrow> message \<Rightarrow> world \<Rightarrow> world outcome" where
  "on_recv self ident m w =
     (case decode_utf8 (data m) of
        Inl e \<Rightarrow> Raised e w
      | Inr msg_text \<Rightarrow>
          if startswith msg_text ''SUBSCRIBE '' then
            lift_chans w
              (subscribe_loop ident (enumerate 0 (str_split msg_text)) (self_channels w self))
          else if startswith msg_text ''UNSUBSCRIBE '' then
            lift_chans w
              (unsubscribe_loop ident (enumerate 0 (str_split msg_text)) (self_channels w self))
          else if startswith msg_text ''PUBLISH '' then
            (let msg_split = str_split msg_text
             in if length msg_split \<ge> 3 then
                  (let channel = msg_split ! 1;
                       pub_msg_text = str_join (drop 2 msg_split)
                   in case self_channels w self channel of
                        None \<Rightarrow> Returned w
                      | Some subs \<Rightarrow> Returned (publish_loop self pub_msg_text subs w))
                else Returned w)
          else Returned w)"

definition on_drop :: "nat \<Rightarrow> ident \<Rightarrow> message \<Rightarrow> world \<Rightarrow> world outcome" where
  "on_drop self ident m w = Returned w"

text \<open>
  The events of the snakeMQ stack. \<open>Broker.__init__\<close> adds \<open>on_recv\<close> to
  \<open>messaging.on_message_recv\<close> and \<open>on_drop\<close> to \<open>messaging.on_message_drop\<close>, and adds
  no callback to any other event of the link or of the messaging layer: a connect or a
  disconnect of a peer runs no code of the broker.
\<close>

datatype event =
  Message_recv ident message
| Message_drop ident message
| Peer_connect ident
| Peer_disconnect ident

fun broker_event :: "nat \<Rightarrow> event \<Rightarrow> world \<Rightarrow> world outcome" where
  "broker_event self (Message_recv ident m) w = on_recv self ident m w"
| "broker_event self (Message_drop ident m) w = on_drop self ident m w"
| "broker_event self (Peer_connect ident) w = Returned w"
| "broker_event self (Peer_disconnect ident) w = Returned w"

text \<open>The events of a run, in order; the loop ends at the first exception.\<close>

fun broker_loop :: "nat \<Rightarrow> event list \<Rightarrow> world \<Rightarrow> world outcome" where
  "broker_loop self [] w = Returned w"
| "broker_loop self (ev # evs) w =
     (case broker_event self ev w of
        Returned w' \<Rightarrow> broker_loop self evs w'
      | Raised e w' \<Rightarrow> Raised e w')"

section \<open>The publisher\<close>

record publisher =
  pub_broker_identity :: ident
  pub_my_identity :: ident
  pub_sent :: "send list"

definition publish :: "channel \<Rightarrow> str \<Rightarrow> publisher \<Rightarrow> publisher" where
  "publish channel msg self =
     (let command = ''PUBLISH '' @ channel @ '' '' @ msg;
          command_msg = \<lparr>data = encode_utf8 command, ttl = 60\<rparr>
      in self\<lparr>pub_sent := pub_sent self @ [(pub_broker_identity self, command_msg)]\<rparr>)"

section \<open>The subscriber\<close>

record subscriber =
  sub_broker_identity :: ident
  sub_my_identity :: ident
  subscriptions :: "channel pyset"
  sub_sent :: "send list"
  stdout :: "str list"

definition subscribe :: "channel \<Rightarrow> subscriber \<Rightarrow> subscriber" where
  "subscribe channel self =
     (let command = ''SUBSCRIBE '' @ channel;
          command_msg = \<lparr>data = encode_utf8 command, ttl = 60\<rparr>;
          self1 = self\<lparr>sub_sent := sub_sent self @ [(sub_broker_identity self, command_msg)]\<rparr>;
          self2 = self1\<lparr>subscriptions := pyset_add channel (subscriptions self1)\<rparr>
      in self2\<lparr>stdout := stdout self2 @ [''Subscribed to '' @ channel]\<rparr>)"

definition unsubscribe :: "channel \<Rightarrow> subscriber \<Rightarrow> subscriber outcome" where
  "unsubscribe channel self =
     (let command = ''UNSUBSCRIBE '' @ channel;
          command_msg = \<lparr>data = encode_utf8 command, ttl = 60\<rparr>;
          self1 = self\<lparr>sub_sent := sub_sent self @ [(sub_broker_identity self, command_msg)]\<rparr>
      in case pyset_remove channel (subscriptions self1) of
           Inl e \<Rightarrow> Raised e self1
         | Inr s \<Rightarrow> Returned (self1\<lparr>subscriptions := s\<rparr>))"

text \<open>
  \<open>on_connect\<close> loops over \<open>self.subscriptions\<close> and calls \<open>self.subscribe\<close> on each
  element. The call adds to the set an element that is already in it, which leaves
  the set as it is, so the loop visits the elements the set had when it started.
\<close>

fun on_connect_loop :: "channel list \<Rightarrow> subscriber \<Rightarrow> subscriber" where
  "on_connect_loop [] self = self"
| "on_connect_loop (channel # rest) self = on_connect_loop rest (subscribe channel self)"

definition on_connect :: "subscriber \<Rightarrow> subscriber" where
  "on_connect self = on_connect_loop (subscriptions self) self"

section \<open>Observations used in the statements\<close>

text \<open>
  The peers registered under a channel; a channel with no entry has none. The
  representation invariant of the registry: every channel's list is duplicate-free,
  as the elements of a Python set are.
\<close>

definition subscribers_of :: "registry \<Rightarrow> channel \<Rightarrow> ident pyset" where
  "subscribers_of chans c = (case chans c of None \<Rightarrow> [] | Some subs \<Rightarrow> subs)"

definition registry_wf :: "registry \<Rightarrow> bool" where
  "registry_wf chans = (\<forall>c subs. chans c = Some subs \<longrightarrow> distinct subs)"

text \<open>
  One pass of the body of the SUBSCRIBE loop, as a function of the registry: the entry
  is created when the channel has none, then the peer is added to its set.
\<close>

definition registry_add :: "ident \<Rightarrow> channel \<Rightarrow> registry \<Rightarrow> registry" where
  "registry_add p c chans = chans(c \<mapsto> pyset_add p (subscribers_of chans c))"

text \<open>The messages a broker handed to its messaging layer between two states.\<close>

definition new_sends :: "nat \<Rightarrow> world \<Rightarrow> world \<Rightarrow> send list" where
  "new_sends self w w' = drop (length (sent (brokers w ! self))) (sent (brokers w' ! self))"

text \<open>
  The transport between a peer and a broker, as the code relies on it: the messages a
  peer handed to its messaging layer for the identity of the broker arrive there in
  the order they were sent, each as one \<open>on_message_recv\<close> event that carries the
  identity of the sender.
\<close>

definition deliveries :: "ident \<Rightarrow> ident \<Rightarrow> send list \<Rightarrow> event list" where
  "deliveries sender dest sends =
     map (\<lambda>(d, m). Message_recv sender m) (filter (\<lambda>(d, m). d = dest) sends)"

text \<open>The messages a subscriber handed to its messaging layer between two states.\<close>

definition sub_new_sends :: "subscriber \<Rightarrow> subscriber \<Rightarrow> send list" where
  "sub_new_sends s s' = drop (length (sub_sent s)) (sub_sent s')"

section \<open>Strings\<close>

lemma utf8_wf_append: "utf8_wf xs \<Longrightarrow> utf8_wf ys \<Longrightarrow> utf8_wf (xs @ ys)"
proof (induction xs rule: utf8_wf.induct)
  case 1
  then show ?case by simp
next
  case (2 b bs)
  note wf = \<open>utf8_wf (b # bs)\<close>
  consider (ascii) "b < 128"
    | (two) "\<not> b < 128" "lead2 b"
    | (three) "\<not> b < 128" "\<not> lead2 b" "lead3 b"
    | (four) "\<not> b < 128" "\<not> lead2 b" "\<not> lead3 b" "lead4 b"
    | (bad) "\<not> b < 128" "\<not> lead2 b" "\<not> lead3 b" "\<not> lead4 b"
    by blast
  then show ?case
  proof cases
    case ascii
    with wf have "utf8_wf bs" by simp
    with ascii 2 show ?thesis by simp
  next
    case two
    with wf obtain c1 r where bs: "bs = c1 # r" and c: "cont c1" and r: "utf8_wf r"
      by (cases bs) simp_all
    from "2.IH"(2) [OF two(1) two(2) bs r "2.prems"(2)] have "utf8_wf (r @ ys)" .
    with two bs c show ?thesis by simp
  next
    case three
    with wf obtain c1 c2 r where bs: "bs = c1 # c2 # r"
      and c: "second3 b c1" "cont c2" and r: "utf8_wf r"
      by (cases bs; cases "tl bs") simp_all
    from "2.IH"(3) [OF three(1) three(2) three(3) bs refl r "2.prems"(2)]
    have "utf8_wf (r @ ys)" .
    with three bs c show ?thesis by simp
  next
    case four
    with wf obtain c1 c2 c3 r where bs: "bs = c1 # c2 # c3 # r"
      and c: "second4 b c1" "cont c2" "cont c3" and r: "utf8_wf r"
      by (cases bs; cases "tl bs"; cases "tl (tl bs)") simp_all
    from "2.IH"(4) [OF four(1) four(2) four(3) four(4) bs refl refl r "2.prems"(2)]
    have "utf8_wf (r @ ys)" .
    with four bs c show ?thesis by simp
  next
    case bad
    with wf show ?thesis by simp
  qed
qed

lemma is_str_append: "is_str s \<Longrightarrow> is_str t \<Longrightarrow> is_str (s @ t)"
  by (simp add: is_str_def utf8_wf_append)

lemma is_str_Cons_ascii: "of_char c < (128::nat) \<Longrightarrow> is_str (c # s) = is_str s"
  by (simp add: is_str_def)

lemma startswith_append: "startswith (p @ s) p"
  by (induction p) auto

lemma startswith_iff: "startswith s p \<longleftrightarrow> (\<exists>t. s = p @ t)"
  by (induction s p rule: startswith.induct) auto

lemma str_split_not_Nil: "str_split s \<noteq> []"
  by (induction s) (auto split: list.splits)

lemma str_join_Cons: "ws \<noteq> [] \<Longrightarrow> str_join (w # ws) = w @ CHR '' '' # str_join ws"
  by (cases ws) auto

lemma str_join_split: "str_join (str_split s) = s"
proof (induction s)
  case Nil
  then show ?case by simp
next
  case (Cons c cs)
  show ?case
  proof (cases "c = CHR '' ''")
    case True
    with Cons show ?thesis by (simp add: str_join_Cons str_split_not_Nil)
  next
    case False
    obtain w ws where sp: "str_split cs = w # ws"
      using str_split_not_Nil [of cs] by (cases "str_split cs") auto
    with Cons False show ?thesis by (cases ws) auto
  qed
qed

lemma str_split_word:
  "CHR '' '' \<notin> set a \<Longrightarrow> str_split (a @ CHR '' '' # b) = a # str_split b"
  by (induction a) auto

lemma str_split_single: "CHR '' '' \<notin> set a \<Longrightarrow> str_split a = [a]"
  by (induction a) auto

section \<open>The registry\<close>

lemma distinct_pyset_add: "distinct s \<Longrightarrow> distinct (pyset_add x s)"
  by (simp add: pyset_add_def)

lemma set_pyset_add: "set (pyset_add x s) = insert x (set s)"
  by (auto simp: pyset_add_def)

lemma count_list_distinct: "distinct xs \<Longrightarrow> count_list xs x = (if x \<in> set xs then 1 else 0)"
  by (induction xs) auto

lemma subscribers_of_registry_add:
  "subscribers_of (registry_add p c chans) d =
     (if d = c then pyset_add p (subscribers_of chans c) else subscribers_of chans d)"
  by (simp add: registry_add_def subscribers_of_def)

lemma registry_add_present:
  "p \<in> set (subscribers_of chans c) \<Longrightarrow> registry_add p c chans = chans"
  by (auto simp: registry_add_def subscribers_of_def pyset_add_def split: option.splits)

lemma registry_wf_add: "registry_wf chans \<Longrightarrow> registry_wf (registry_add p c chans)"
  by (auto simp: registry_wf_def registry_add_def subscribers_of_def distinct_pyset_add
      split: option.splits if_splits)

lemma registry_wf_subscribers: "registry_wf chans \<Longrightarrow> distinct (subscribers_of chans c)"
  by (auto simp: registry_wf_def subscribers_of_def split: option.splits)

lemma registry_wf_fold_add:
  "registry_wf chans \<Longrightarrow> registry_wf (fold (registry_add p) cs chans)"
  by (induction cs arbitrary: chans) (simp_all add: registry_wf_add)

lemma mem_fold_add:
  "q \<in> set (subscribers_of (fold (registry_add p) cs chans) d) \<longleftrightarrow>
     (q = p \<and> d \<in> set cs) \<or> q \<in> set (subscribers_of chans d)"
  by (induction cs arbitrary: chans)
     (auto simp: subscribers_of_registry_add set_pyset_add split: if_splits)

lemma fold_add_present:
  "\<forall>c \<in> set cs. p \<in> set (subscribers_of chans c) \<Longrightarrow> fold (registry_add p) cs chans = chans"
  by (induction cs) (simp_all add: registry_add_present)

lemma fold_add_idem:
  "fold (registry_add p) cs (fold (registry_add p) cs chans) = fold (registry_add p) cs chans"
  by (rule fold_add_present) (simp add: mem_fold_add)

section \<open>The loops of on_recv\<close>

lemma subscribe_loop_step:
  "i \<noteq> 0 \<Longrightarrow> subscribe_loop p ((i, c) # rest) chans = subscribe_loop p rest (registry_add p c chans)"
  by (simp add: registry_add_def subscribers_of_def Let_def split: option.splits)

lemma subscribe_loop_fold:
  "subscribe_loop p (enumerate (Suc n) cs) chans = Returned (fold (registry_add p) cs chans)"
  by (induction cs arbitrary: n chans) (simp_all add: subscribe_loop_step del: subscribe_loop.simps(2))

lemma subscribe_loop_enumerate:
  "subscribe_loop p (enumerate 0 (v # cs)) chans = Returned (fold (registry_add p) cs chans)"
  by (simp add: subscribe_loop_fold)

lemma registry_wf_removeAll:
  "registry_wf chans \<Longrightarrow> chans c = Some subs \<Longrightarrow> registry_wf (chans(c \<mapsto> removeAll p subs))"
  by (auto simp: registry_wf_def distinct_removeAll)

lemma unsubscribe_loop_wf:
  "registry_wf chans \<Longrightarrow> registry_wf (final (unsubscribe_loop p xs chans))"
proof (induction xs arbitrary: chans)
  case Nil
  then show ?case by simp
next
  case (Cons x xs)
  obtain i c where x: "x = (i, c)" by (cases x)
  show ?case
  proof (cases "i = 0")
    case True
    with Cons x show ?thesis by simp
  next
    case False
    show ?thesis
    proof (cases "chans c")
      case None
      with Cons x False show ?thesis by simp
    next
      case (Some subs)
      show ?thesis
      proof (cases "p \<in> set subs")
        case True
        have "registry_wf (chans(c \<mapsto> removeAll p subs))"
          using Cons.prems Some by (rule registry_wf_removeAll)
        from Cons.IH [OF this]
        have ih: "registry_wf (final (unsubscribe_loop p xs (chans(c \<mapsto> removeAll p subs))))" .
        from x \<open>i \<noteq> 0\<close> Some True show ?thesis
          by (simp add: pyset_remove_def ih)
      next
        case False
        with Cons.prems x \<open>i \<noteq> 0\<close> Some show ?thesis
          by (simp add: pyset_remove_def)
      qed
    qed
  qed
qed

lemma publish_loop_channels: "Broker_channels (publish_loop self txt subs w) = Broker_channels w"
  by (induction subs arbitrary: w) (simp_all add: send_message_def Let_def)

lemma publish_loop_brokers:
  "self < length (brokers w) \<Longrightarrow>
   publish_loop self txt subs w =
     w\<lparr>brokers := (brokers w)[self := (brokers w ! self)
         \<lparr>sent := sent (brokers w ! self) @ map (\<lambda>p. (p, \<lparr>data = txt, ttl = 60\<rparr>)) subs\<rparr>]\<rparr>"
proof (induction subs arbitrary: w)
  case Nil
  then show ?case by simp
next
  case (Cons a subs)
  have "self < length (brokers (send_message self a \<lparr>data = txt, ttl = 60\<rparr> w))"
    using Cons.prems by (simp add: send_message_def)
  from Cons.IH [OF this] Cons.prems show ?case
    by (simp add: send_message_def encode_utf8_def)
qed

lemma new_sends_publish_loop:
  "self < length (brokers w) \<Longrightarrow>
   new_sends self w (publish_loop self txt subs w) = map (\<lambda>p. (p, \<lparr>data = txt, ttl = 60\<rparr>)) subs"
  by (simp add: new_sends_def publish_loop_brokers)

section \<open>The commands on the wire\<close>

lemma is_str_SUBSCRIBE: "is_str c \<Longrightarrow> is_str (''SUBSCRIBE '' @ c)"
  by (simp add: is_str_Cons_ascii)

lemma is_str_UNSUBSCRIBE: "is_str c \<Longrightarrow> is_str (''UNSUBSCRIBE '' @ c)"
  by (simp add: is_str_Cons_ascii)

lemma str_split_SUBSCRIBE:
  "CHR '' '' \<notin> set c \<Longrightarrow> str_split (''SUBSCRIBE '' @ c) = [''SUBSCRIBE'', c]"
  using str_split_word [of "''SUBSCRIBE''" c] by (simp add: str_split_single)

lemma str_split_UNSUBSCRIBE:
  "CHR '' '' \<notin> set c \<Longrightarrow> str_split (''UNSUBSCRIBE '' @ c) = [''UNSUBSCRIBE'', c]"
  using str_split_word [of "''UNSUBSCRIBE''" c] by (simp add: str_split_single)

lemma startswith_SUBSCRIBE: "startswith (''SUBSCRIBE '' @ c) ''SUBSCRIBE ''"
  by simp

lemma startswith_UNSUBSCRIBE:
  "startswith (''UNSUBSCRIBE '' @ c) ''UNSUBSCRIBE ''"
  "\<not> startswith (''UNSUBSCRIBE '' @ c) ''SUBSCRIBE ''"
  by simp_all

lemma lift_chans_same:
  "lift_chans w (Raised e (Broker_channels w)) = Raised e w"
  "lift_chans w (Returned (Broker_channels w)) = Returned w"
  by (simp_all add: lift_chans_def)

lemma str_split_PUBLISH:
  "CHR '' '' \<notin> set c \<Longrightarrow>
   str_split (''PUBLISH '' @ c @ '' '' @ msg) = ''PUBLISH'' # c # str_split msg"
  using str_split_word [of "''PUBLISH''" "c @ '' '' @ msg"] str_split_word [of c msg]
  by simp

lemma is_str_PUBLISH: "is_str c \<Longrightarrow> is_str msg \<Longrightarrow> is_str (''PUBLISH '' @ c @ '' '' @ msg)"
proof -
  assume c: "is_str c" and m: "is_str msg"
  have "is_str ('' '' @ msg)" using m by (simp add: is_str_Cons_ascii)
  with c have "is_str (c @ '' '' @ msg)" by (rule is_str_append)
  then show ?thesis by (simp add: is_str_Cons_ascii)
qed

lemma startswith_PUBLISH_not:
  assumes "startswith s ''PUBLISH ''"
  shows "\<not> startswith s ''SUBSCRIBE ''" and "\<not> startswith s ''UNSUBSCRIBE ''"
proof -
  from assms obtain t where "s = ''PUBLISH '' @ t" by (auto simp: startswith_iff)
  then show "\<not> startswith s ''SUBSCRIBE ''" and "\<not> startswith s ''UNSUBSCRIBE ''"
    by simp_all
qed

lemma publish_command:
  "snd (last (pub_sent (publish c msg pub))) = \<lparr>data = ''PUBLISH '' @ c @ '' '' @ msg, ttl = 60\<rparr>"
  by (simp add: publish_def encode_utf8_def Let_def)

section \<open>What on_recv does with each command\<close>

lemma final_lift_chans: "final (lift_chans w r) = w\<lparr>Broker_channels := final r\<rparr>"
  by (cases r) (simp_all add: lift_chans_def)

lemma on_recv_SUBSCRIBE:
  assumes "is_str (data m)" and "startswith (data m) ''SUBSCRIBE ''"
  shows "on_recv self p m w =
     Returned (w\<lparr>Broker_channels :=
        fold (registry_add p) (tl (str_split (data m))) (Broker_channels w)\<rparr>)"
proof -
  obtain v cs where sp: "str_split (data m) = v # cs"
    using str_split_not_Nil [of "data m"] by (cases "str_split (data m)") auto
  with assms show ?thesis
    by (simp add: on_recv_def decode_utf8_def self_channels_def subscribe_loop_fold
        lift_chans_def)
qed

lemma on_recv_SUBSCRIBE_one:
  assumes "is_str c" and "CHR '' '' \<notin> set c"
  shows "on_recv self p \<lparr>data = ''SUBSCRIBE '' @ c, ttl = t\<rparr> w =
     Returned (w\<lparr>Broker_channels := registry_add p c (Broker_channels w)\<rparr>)"
  using on_recv_SUBSCRIBE [of "\<lparr>data = ''SUBSCRIBE '' @ c, ttl = t\<rparr>" self p w] assms
  by (simp add: is_str_SUBSCRIBE startswith_SUBSCRIBE str_split_SUBSCRIBE del: append.simps)

lemma on_recv_PUBLISH:
  assumes "is_str (data m)" and "startswith (data m) ''PUBLISH ''"
    and "3 \<le> length (str_split (data m))"
  shows "on_recv self q m w =
     Returned (publish_loop self (str_join (drop 2 (str_split (data m))))
                 (subscribers_of (Broker_channels w) (str_split (data m) ! 1)) w)"
  using assms startswith_PUBLISH_not [OF assms(2)]
  by (simp add: on_recv_def decode_utf8_def self_channels_def subscribers_of_def Let_def
      split: option.splits)

lemma on_recv_wf:
  assumes "registry_wf (Broker_channels w)"
  shows "registry_wf (Broker_channels (final (on_recv self q m w)))"
proof (cases "is_str (data m)")
  case False
  with assms show ?thesis by (simp add: on_recv_def decode_utf8_def)
next
  case str: True
  show ?thesis
  proof (cases "startswith (data m) ''SUBSCRIBE ''")
    case True
    with str assms show ?thesis by (simp add: on_recv_SUBSCRIBE registry_wf_fold_add)
  next
    case nsub: False
    show ?thesis
    proof (cases "startswith (data m) ''UNSUBSCRIBE ''")
      case True
      with str nsub assms show ?thesis
        by (simp add: on_recv_def decode_utf8_def self_channels_def final_lift_chans
            unsubscribe_loop_wf)
    next
      case False
      with str nsub assms show ?thesis
        by (simp add: on_recv_def decode_utf8_def self_channels_def Let_def
            publish_loop_channels split: option.splits)
    qed
  qed
qed

lemma broker_event_wf:
  "registry_wf (Broker_channels w) \<Longrightarrow>
   registry_wf (Broker_channels (final (broker_event self ev w)))"
  by (cases ev) (simp_all add: on_recv_wf on_drop_def)

lemma broker_loop_wf:
  "registry_wf (Broker_channels w) \<Longrightarrow>
   registry_wf (Broker_channels (final (broker_loop self evs w)))"
proof (induction evs arbitrary: w)
  case Nil
  then show ?case by simp
next
  case (Cons ev evs)
  from Cons.prems have wf: "registry_wf (Broker_channels (final (broker_event self ev w)))"
    by (rule broker_event_wf)
  show ?case
  proof (cases "broker_event self ev w")
    case (Returned w')
    with wf Cons.IH [of w'] show ?thesis by simp
  next
    case (Raised e w')
    with wf show ?thesis by simp
  qed
qed

section \<open>What the subscriber sends\<close>

lemma subscribe_fields:
  "sub_broker_identity (subscribe c s) = sub_broker_identity s"
  "sub_my_identity (subscribe c s) = sub_my_identity s"
  "sub_sent (subscribe c s) =
     sub_sent s @ [(sub_broker_identity s, \<lparr>data = ''SUBSCRIBE '' @ c, ttl = 60\<rparr>)]"
  "subscriptions (subscribe c s) = pyset_add c (subscriptions s)"
  by (simp_all add: subscribe_def encode_utf8_def Let_def)

lemma on_connect_loop_sent:
  "sub_sent (on_connect_loop cs s) =
     sub_sent s @ map (\<lambda>c. (sub_broker_identity s, \<lparr>data = ''SUBSCRIBE '' @ c, ttl = 60\<rparr>)) cs"
  by (induction cs arbitrary: s) (simp_all add: subscribe_fields del: append.simps)

lemma on_connect_loop_subscriptions:
  "set cs \<subseteq> set (subscriptions s) \<Longrightarrow> subscriptions (on_connect_loop cs s) = subscriptions s"
  by (induction cs arbitrary: s) (simp_all add: subscribe_fields pyset_add_def)

lemma sub_new_sends_on_connect:
  "sub_new_sends s (on_connect s) =
     map (\<lambda>c. (sub_broker_identity s, \<lparr>data = ''SUBSCRIBE '' @ c, ttl = 60\<rparr>)) (subscriptions s)"
  by (simp add: sub_new_sends_def on_connect_def on_connect_loop_sent)

lemma deliveries_subscribes:
  "deliveries p b (map (\<lambda>c. (b, \<lparr>data = ''SUBSCRIBE '' @ c, ttl = 60\<rparr>)) cs) =
     map (\<lambda>c. Message_recv p \<lparr>data = ''SUBSCRIBE '' @ c, ttl = 60\<rparr>) cs"
  by (induction cs) (simp_all add: deliveries_def del: append.simps)

lemma broker_loop_subscribes:
  "\<forall>c \<in> set cs. is_str c \<and> CHR '' '' \<notin> set c \<Longrightarrow>
   broker_loop self (map (\<lambda>c. Message_recv p \<lparr>data = ''SUBSCRIBE '' @ c, ttl = 60\<rparr>) cs) w =
     Returned (w\<lparr>Broker_channels := fold (registry_add p) cs (Broker_channels w)\<rparr>)"
  by (induction cs arbitrary: w) (simp_all add: on_recv_SUBSCRIBE_one del: append.simps)

section \<open>Claims about the registry\<close>

text \<open>
  C1. The claim: handling \<open>UNSUBSCRIBE c\<close> from a peer that is not in the set of \<open>c\<close>
  leaves the registry unchanged and raises no error. The code guards only the absent
  channel (\<open>if channel in self.channels\<close>) and then calls \<open>set.remove\<close>, which raises
  KeyError for an absent element: when the channel has an entry and the peer is not in
  it, \<open>on_recv\<close> raises KeyError (the registry is as it was).
\<close>

theorem unsubscribe_absent_peer_raises:
  assumes "is_str c" and "CHR '' '' \<notin> set c"
    and "Broker_channels w c = Some subs" and "p \<notin> set subs"
  shows "on_recv self p \<lparr>data = ''UNSUBSCRIBE '' @ c, ttl = t\<rparr> w = Raised KeyError w"
  using assms
  by (simp add: on_recv_def decode_utf8_def is_str_UNSUBSCRIBE str_split_UNSUBSCRIBE
      self_channels_def pyset_remove_def lift_chans_same startswith_UNSUBSCRIBE
      del: append.simps)

theorem unsubscribe_absent_peer_raises_witness:
  "is_str ''a'' \<and> CHR '' '' \<notin> set ''a''
   \<and> Broker_channels \<lparr>Broker_channels = [''a'' \<mapsto> [''subscriber2'']],
          brokers = [\<lparr>broker_identity = ''broker'', listeners = [(''localhost'', 4000)], sent = []\<rparr>]\<rparr> ''a''
       = Some [''subscriber2'']
   \<and> ''subscriber1'' \<notin> set [''subscriber2'']
   \<and> on_recv 0 ''subscriber1'' \<lparr>data = ''UNSUBSCRIBE a'', ttl = 60\<rparr>
         \<lparr>Broker_channels = [''a'' \<mapsto> [''subscriber2'']],
          brokers = [\<lparr>broker_identity = ''broker'', listeners = [(''localhost'', 4000)], sent = []\<rparr>]\<rparr>
       = Raised KeyError \<lparr>Broker_channels = [''a'' \<mapsto> [''subscriber2'']],
          brokers = [\<lparr>broker_identity = ''broker'', listeners = [(''localhost'', 4000)], sent = []\<rparr>]\<rparr>"
  using unsubscribe_absent_peer_raises
    [of "''a''" "\<lparr>Broker_channels = [''a'' \<mapsto> [''subscriber2'']],
          brokers = [\<lparr>broker_identity = ''broker'', listeners = [(''localhost'', 4000)], sent = []\<rparr>]\<rparr>"
        "[''subscriber2'']" "''subscriber1''" 0 60]
  by (simp add: is_str_def)

text \<open>
  C2. The claim: after the transport reports that a peer disconnected, the broker has
  removed it from every channel. The broker registers no callback for a disconnect, so
  the event changes nothing: a peer that subscribed to \<open>a\<close> and then disconnected is
  still in the set of \<open>a\<close>.
\<close>

theorem disconnect_keeps_subscriptions:
  "broker_event self (Peer_disconnect p) w = Returned w
   \<and> broker_loop 0
        [Message_recv ''subscriber1'' \<lparr>data = ''SUBSCRIBE a'', ttl = 60\<rparr>,
         Peer_disconnect ''subscriber1'']
        (snd (Broker_init ''localhost'' 4000 ''broker'' world_init))
      = Returned
          \<lparr>Broker_channels = [''a'' \<mapsto> [''subscriber1'']],
           brokers = [\<lparr>broker_identity = ''broker'', listeners = [(''localhost'', 4000)],
                       sent = []\<rparr>]\<rparr>"
  by (simp add: Broker_init_def world_init_def on_recv_def decode_utf8_def is_str_def
      self_channels_def lift_chans_def pyset_add_def)

text \<open>
  C3, as claimed: every newly constructed Broker starts with an empty mapping, and what
  one Broker does to its registry is not visible through another. It fails: a second
  Broker, constructed after the first one handled \<open>SUBSCRIBE a\<close>, reads a mapping in
  which \<open>a\<close> has the subscriber.
\<close>

theorem new_broker_sees_old_subscriptions:
  "fst (Broker_init ''localhost'' 4001 ''broker2''
          (final (on_recv 0 ''subscriber1'' \<lparr>data = ''SUBSCRIBE a'', ttl = 60\<rparr>
                    (snd (Broker_init ''localhost'' 4000 ''broker'' world_init))))) = 1
   \<and> self_channels
        (snd (Broker_init ''localhost'' 4001 ''broker2''
          (final (on_recv 0 ''subscriber1'' \<lparr>data = ''SUBSCRIBE a'', ttl = 60\<rparr>
                    (snd (Broker_init ''localhost'' 4000 ''broker'' world_init))))))
        1 ''a'' = Some [''subscriber1'']"
  by (simp add: Broker_init_def world_init_def on_recv_def decode_utf8_def is_str_def
      self_channels_def lift_chans_def pyset_add_def)

text \<open>
  C3, amended: the registry is the one dictionary of the class, shared by all Broker
  objects. Constructing a Broker leaves it as it is, so the new Broker reads what every
  other Broker reads; it is empty for a Broker constructed before any command was
  handled; and a subscription made through one Broker is read through any other.
\<close>

theorem registry_shared_by_all_brokers:
  assumes "is_str c" and "CHR '' '' \<notin> set c"
  shows "self_channels (snd (Broker_init h port i w)) (fst (Broker_init h port i w))
           = self_channels w b
   \<and> self_channels (snd (Broker_init h port i world_init)) (fst (Broker_init h port i world_init))
       = Map.empty
   \<and> p \<in> set (subscribers_of
        (self_channels (final (on_recv b1 p \<lparr>data = ''SUBSCRIBE '' @ c, ttl = t\<rparr> w)) b2) c)"
  using assms
  by (simp add: Broker_init_def world_init_def self_channels_def on_recv_SUBSCRIBE_one
      subscribers_of_registry_add set_pyset_add del: append.simps)

theorem registry_shared_by_all_brokers_witness:
  "is_str ''a'' \<and> CHR '' '' \<notin> set ''a''
   \<and> self_channels
        (snd (Broker_init ''localhost'' 4001 ''broker2''
           (snd (Broker_init ''localhost'' 4000 ''broker'' world_init))))
        (fst (Broker_init ''localhost'' 4001 ''broker2''
           (snd (Broker_init ''localhost'' 4000 ''broker'' world_init))))
      = self_channels (snd (Broker_init ''localhost'' 4000 ''broker'' world_init)) 0
   \<and> ''subscriber1'' \<in> set (subscribers_of
        (self_channels
           (final (on_recv 0 ''subscriber1'' \<lparr>data = ''SUBSCRIBE a'', ttl = 60\<rparr>
              (snd (Broker_init ''localhost'' 4001 ''broker2''
                 (snd (Broker_init ''localhost'' 4000 ''broker'' world_init))))))
           1) ''a'')"
  using registry_shared_by_all_brokers
    [of "''a''" "''localhost''" 4001 "''broker2''"
        "snd (Broker_init ''localhost'' 4000 ''broker'' world_init)" 0 "''subscriber1''" 0 60 1]
    registry_shared_by_all_brokers
    [of "''a''" "''localhost''" 4001 "''broker2''"
        "snd (Broker_init ''localhost'' 4001 ''broker2''
           (snd (Broker_init ''localhost'' 4000 ''broker'' world_init)))" 0 "''subscriber1''" 0 60 1]
  by (simp add: is_str_def)

text \<open>
  C8. Subscribing is idempotent. For a SUBSCRIBE command from a peer, in a registry
  whose sets are duplicate-free: the command is handled without an error; handling it
  again changes nothing; each channel it names then lists the peer exactly once; and
  whatever the broker handles afterwards, no set of the registry ever lists a peer
  twice.
\<close>

theorem subscribe_idempotent:
  assumes "is_str (data m)" and "startswith (data m) ''SUBSCRIBE ''"
    and "registry_wf (Broker_channels w)"
  shows "\<exists>w1. on_recv self p m w = Returned w1
           \<and> on_recv self p m w1 = Returned w1
           \<and> (\<forall>c \<in> set (tl (str_split (data m))).
                 count_list (subscribers_of (Broker_channels w1) c) p = 1)
           \<and> (\<forall>evs. registry_wf (Broker_channels (final (broker_loop self evs w1))))"
proof -
  let ?cs = "tl (str_split (data m))"
  let ?w1 = "w\<lparr>Broker_channels := fold (registry_add p) ?cs (Broker_channels w)\<rparr>"
  have first: "on_recv self p m w = Returned ?w1"
    using assms(1,2) by (rule on_recv_SUBSCRIBE)
  have second: "on_recv self p m ?w1 = Returned ?w1"
    using assms(1,2) by (simp add: on_recv_SUBSCRIBE fold_add_idem)
  have wf: "registry_wf (Broker_channels ?w1)"
    using assms(3) by (simp add: registry_wf_fold_add)
  have once: "count_list (subscribers_of (Broker_channels ?w1) c) p = 1" if "c \<in> set ?cs" for c
    using that registry_wf_subscribers [OF wf, of c]
    by (simp add: count_list_distinct mem_fold_add)
  from first second once broker_loop_wf [OF wf] show ?thesis by blast
qed

theorem subscribe_idempotent_witness:
  "is_str (data \<lparr>data = ''SUBSCRIBE a'', ttl = 60\<rparr>)
   \<and> startswith (data \<lparr>data = ''SUBSCRIBE a'', ttl = 60\<rparr>) ''SUBSCRIBE ''
   \<and> registry_wf (Broker_channels (snd (Broker_init ''localhost'' 4000 ''broker'' world_init)))
   \<and> (\<exists>w1. on_recv 0 ''subscriber1'' \<lparr>data = ''SUBSCRIBE a'', ttl = 60\<rparr>
               (snd (Broker_init ''localhost'' 4000 ''broker'' world_init)) = Returned w1
           \<and> on_recv 0 ''subscriber1'' \<lparr>data = ''SUBSCRIBE a'', ttl = 60\<rparr> w1 = Returned w1
           \<and> count_list (subscribers_of (Broker_channels w1) ''a'') ''subscriber1'' = 1
           \<and> (\<forall>evs. registry_wf (Broker_channels (final (broker_loop 0 evs w1)))))"
proof -
  let ?w = "snd (Broker_init ''localhost'' 4000 ''broker'' world_init)"
  have a: "is_str (data \<lparr>data = ''SUBSCRIBE a'', ttl = 60\<rparr>)" by (simp add: is_str_def)
  have b: "startswith (data \<lparr>data = ''SUBSCRIBE a'', ttl = 60\<rparr>) ''SUBSCRIBE ''" by simp
  have c: "registry_wf (Broker_channels ?w)"
    by (simp add: Broker_init_def world_init_def registry_wf_def)
  have d: "''a'' \<in> set (tl (str_split (data \<lparr>data = ''SUBSCRIBE a'', ttl = 60\<rparr>)))" by simp
  from a b c d subscribe_idempotent [OF a b c, of 0 "''subscriber1''"] show ?thesis
    by blast
qed

section \<open>Claims about commands and fan-out\<close>

text \<open>
  C4, as claimed: the payload forwarded for a PUBLISH command is the message with every
  run of spaces collapsed to one space. It fails: \<open>split(" ")\<close> keeps an empty field
  between two adjacent spaces and the join puts both spaces back, so the message
  \<open>x  y\<close> (two spaces) is forwarded as it is.
\<close>

theorem publish_keeps_space_runs:
  "new_sends 0
     \<lparr>Broker_channels = [''a'' \<mapsto> [''subscriber1'']],
      brokers = [\<lparr>broker_identity = ''broker'', listeners = [(''localhost'', 4000)], sent = []\<rparr>]\<rparr>
     (final (on_recv 0 ''publisher''
        (snd (last (pub_sent (publish ''a'' ''x  y''
           \<lparr>pub_broker_identity = ''broker'', pub_my_identity = ''publisher'', pub_sent = []\<rparr>))))
        \<lparr>Broker_channels = [''a'' \<mapsto> [''subscriber1'']],
         brokers = [\<lparr>broker_identity = ''broker'', listeners = [(''localhost'', 4000)], sent = []\<rparr>]\<rparr>))
   = [(''subscriber1'', \<lparr>data = ''x  y'', ttl = 60\<rparr>)]
   \<and> ''x  y'' \<noteq> ''x y''"
  by (simp add: publish_def encode_utf8_def on_recv_def decode_utf8_def is_str_def
      self_channels_def send_message_def new_sends_def)

text \<open>
  C4, amended: for a channel name without a space, the command that \<open>Publisher.publish\<close>
  encodes is decoded by the broker to that channel and to a payload that is the
  remainder of the line re-joined with single spaces, which is the message itself,
  byte for byte (runs of spaces included); this payload is what each subscriber of the
  channel is sent.
\<close>

theorem publish_payload_preserved:
  assumes "is_str c" and "is_str msg" and "CHR '' '' \<notin> set c"
    and "self < length (brokers w)"
  shows "str_split (data (snd (last (pub_sent (publish c msg pub))))) ! 1 = c
   \<and> str_join (drop 2 (str_split (data (snd (last (pub_sent (publish c msg pub))))))) = msg
   \<and> (\<exists>w'. on_recv self sender (snd (last (pub_sent (publish c msg pub)))) w = Returned w'
         \<and> new_sends self w w' =
             map (\<lambda>p. (p, \<lparr>data = msg, ttl = 60\<rparr>)) (subscribers_of (Broker_channels w) c))"
proof -
  let ?m = "\<lparr>data = ''PUBLISH '' @ c @ '' '' @ msg, ttl = 60\<rparr>"
  have sp: "str_split (data ?m) = ''PUBLISH'' # c # str_split msg"
    using assms(3) by (simp add: str_split_PUBLISH del: append.simps)
  have ch: "str_split (data ?m) ! 1 = c" by (simp only: sp) simp
  have tx: "str_join (drop 2 (str_split (data ?m))) = msg"
    by (simp only: sp) (simp add: str_join_split)
  have len: "3 \<le> length (str_split (data ?m))"
    using str_split_not_Nil [of msg] by (simp only: sp) (cases "str_split msg"; simp)
  have str: "is_str (data ?m)"
    using assms(1,2) by (simp add: is_str_PUBLISH del: append.simps)
  have sw: "startswith (data ?m) ''PUBLISH ''" by simp
  have "on_recv self sender ?m w =
          Returned (publish_loop self msg (subscribers_of (Broker_channels w) c) w)"
    using on_recv_PUBLISH [OF str sw len, of self sender w] by (simp only: ch tx)
  moreover have "new_sends self w (publish_loop self msg (subscribers_of (Broker_channels w) c) w)
      = map (\<lambda>p. (p, \<lparr>data = msg, ttl = 60\<rparr>)) (subscribers_of (Broker_channels w) c)"
    using assms(4) by (rule new_sends_publish_loop)
  ultimately show ?thesis using ch tx by (simp only: publish_command) blast
qed

theorem publish_payload_preserved_witness:
  "is_str ''a'' \<and> is_str ''x  y'' \<and> CHR '' '' \<notin> set ''a''
   \<and> 0 < length (brokers \<lparr>Broker_channels = [''a'' \<mapsto> [''subscriber1'']],
        brokers = [\<lparr>broker_identity = ''broker'', listeners = [(''localhost'', 4000)], sent = []\<rparr>]\<rparr>)
   \<and> str_join (drop 2 (str_split (data (snd (last (pub_sent (publish ''a'' ''x  y''
        \<lparr>pub_broker_identity = ''broker'', pub_my_identity = ''publisher'', pub_sent = []\<rparr>)))))))
      = ''x  y''
   \<and> (\<exists>w'. on_recv 0 ''publisher'' (snd (last (pub_sent (publish ''a'' ''x  y''
              \<lparr>pub_broker_identity = ''broker'', pub_my_identity = ''publisher'', pub_sent = []\<rparr>))))
          \<lparr>Broker_channels = [''a'' \<mapsto> [''subscriber1'']],
           brokers = [\<lparr>broker_identity = ''broker'', listeners = [(''localhost'', 4000)], sent = []\<rparr>]\<rparr>
          = Returned w'
        \<and> new_sends 0
             \<lparr>Broker_channels = [''a'' \<mapsto> [''subscriber1'']],
              brokers = [\<lparr>broker_identity = ''broker'', listeners = [(''localhost'', 4000)], sent = []\<rparr>]\<rparr>
             w'
           = [(''subscriber1'', \<lparr>data = ''x  y'', ttl = 60\<rparr>)])"
  using publish_payload_preserved
    [of "''a''" "''x  y''" 0
        "\<lparr>Broker_channels = [''a'' \<mapsto> [''subscriber1'']],
           brokers = [\<lparr>broker_identity = ''broker'', listeners = [(''localhost'', 4000)], sent = []\<rparr>]\<rparr>"
        "\<lparr>pub_broker_identity = ''broker'', pub_my_identity = ''publisher'', pub_sent = []\<rparr>"
        "''publisher''"]
  by (simp add: is_str_def subscribers_of_def)

text \<open>
  C5, as claimed: a payload that does not start with a recognized verb is reported as
  a malformed command, and the broker does not crash. It fails on both counts: for
  \<open>HELLO\<close> the handler returns with the whole state as it was (the registry, and the
  messages of every broker: nothing is reported anywhere), and for the single byte FF,
  which starts with no verb either, \<open>decode\<close> raises UnicodeDecodeError out of the
  handler.
\<close>

theorem malformed_command_not_reported:
  "on_recv 0 ''publisher'' \<lparr>data = ''HELLO'', ttl = 60\<rparr>
     \<lparr>Broker_channels = [''a'' \<mapsto> [''subscriber1'']],
      brokers = [\<lparr>broker_identity = ''broker'', listeners = [(''localhost'', 4000)], sent = []\<rparr>]\<rparr>
   = Returned
     \<lparr>Broker_channels = [''a'' \<mapsto> [''subscriber1'']],
      brokers = [\<lparr>broker_identity = ''broker'', listeners = [(''localhost'', 4000)], sent = []\<rparr>]\<rparr>
   \<and> on_recv 0 ''publisher'' \<lparr>data = [CHR 0xFF], ttl = 60\<rparr>
     \<lparr>Broker_channels = [''a'' \<mapsto> [''subscriber1'']],
      brokers = [\<lparr>broker_identity = ''broker'', listeners = [(''localhost'', 4000)], sent = []\<rparr>]\<rparr>
   = Raised UnicodeDecodeError
     \<lparr>Broker_channels = [''a'' \<mapsto> [''subscriber1'']],
      brokers = [\<lparr>broker_identity = ''broker'', listeners = [(''localhost'', 4000)], sent = []\<rparr>]\<rparr>"
  by (simp add: on_recv_def decode_utf8_def is_str_def lead2_def lead3_def lead4_def)

text \<open>
  C5, amended: a payload that decodes as UTF-8 and either starts with none of
  \<open>SUBSCRIBE\<close>, \<open>UNSUBSCRIBE\<close>, \<open>PUBLISH\<close> followed by a space, or is a PUBLISH line of
  fewer than three fields, is ignored in silence: the handler returns, with no error,
  and the state (the registry and the messages sent) is unchanged.
\<close>

theorem malformed_command_ignored:
  assumes "is_str (data m)"
    and "(\<not> startswith (data m) ''SUBSCRIBE '' \<and> \<not> startswith (data m) ''UNSUBSCRIBE ''
          \<and> \<not> startswith (data m) ''PUBLISH '')
         \<or> (startswith (data m) ''PUBLISH '' \<and> length (str_split (data m)) < 3)"
  shows "on_recv self q m w = Returned w"
  using assms(2)
proof
  assume "\<not> startswith (data m) ''SUBSCRIBE '' \<and> \<not> startswith (data m) ''UNSUBSCRIBE ''
          \<and> \<not> startswith (data m) ''PUBLISH ''"
  with assms(1) show ?thesis by (simp add: on_recv_def decode_utf8_def)
next
  assume p: "startswith (data m) ''PUBLISH '' \<and> length (str_split (data m)) < 3"
  with assms(1) startswith_PUBLISH_not [of "data m"] show ?thesis
    by (simp add: on_recv_def decode_utf8_def Let_def)
qed

theorem malformed_command_ignored_witness:
  "is_str (data \<lparr>data = ''HELLO'', ttl = 60\<rparr>)
   \<and> \<not> startswith (data \<lparr>data = ''HELLO'', ttl = 60\<rparr>) ''SUBSCRIBE ''
   \<and> \<not> startswith (data \<lparr>data = ''HELLO'', ttl = 60\<rparr>) ''UNSUBSCRIBE ''
   \<and> \<not> startswith (data \<lparr>data = ''HELLO'', ttl = 60\<rparr>) ''PUBLISH ''
   \<and> on_recv 0 ''publisher'' \<lparr>data = ''HELLO'', ttl = 60\<rparr>
        (snd (Broker_init ''localhost'' 4000 ''broker'' world_init))
      = Returned (snd (Broker_init ''localhost'' 4000 ''broker'' world_init))
   \<and> is_str (data \<lparr>data = ''PUBLISH a'', ttl = 60\<rparr>)
   \<and> startswith (data \<lparr>data = ''PUBLISH a'', ttl = 60\<rparr>) ''PUBLISH ''
   \<and> length (str_split (data \<lparr>data = ''PUBLISH a'', ttl = 60\<rparr>)) < 3
   \<and> on_recv 0 ''publisher'' \<lparr>data = ''PUBLISH a'', ttl = 60\<rparr>
        (snd (Broker_init ''localhost'' 4000 ''broker'' world_init))
      = Returned (snd (Broker_init ''localhost'' 4000 ''broker'' world_init))"
  using malformed_command_ignored [of "\<lparr>data = ''HELLO'', ttl = 60\<rparr>" 0 "''publisher''"
      "snd (Broker_init ''localhost'' 4000 ''broker'' world_init)"]
    malformed_command_ignored [of "\<lparr>data = ''PUBLISH a'', ttl = 60\<rparr>" 0 "''publisher''"
      "snd (Broker_init ''localhost'' 4000 ''broker'' world_init)"]
  by (simp add: is_str_def)

text \<open>
  C6. Fan-out. For a PUBLISH command on a channel (at least three fields, so a channel
  and a payload), handled by an existing broker while the channel's set is
  duplicate-free: the handler returns, the registry is unchanged, the messages handed
  to the messaging layer are one per element of the channel's set, each carrying the
  payload with a time to live of 60, and so every peer is the destination of exactly
  one of them if it is in the set and of none otherwise. This holds for the sender too.
\<close>

theorem publish_fan_out:
  assumes "self < length (brokers w)" and "is_str (data m)"
    and "startswith (data m) ''PUBLISH ''" and "3 \<le> length (str_split (data m))"
    and "distinct (subscribers_of (Broker_channels w) (str_split (data m) ! 1))"
  shows "\<exists>w'. on_recv self sender m w = Returned w'
           \<and> Broker_channels w' = Broker_channels w
           \<and> new_sends self w w' =
               map (\<lambda>p. (p, \<lparr>data = str_join (drop 2 (str_split (data m))), ttl = 60\<rparr>))
                 (subscribers_of (Broker_channels w) (str_split (data m) ! 1))
           \<and> (\<forall>p. count_list (map fst (new_sends self w w')) p =
                 (if p \<in> set (subscribers_of (Broker_channels w) (str_split (data m) ! 1))
                  then 1 else 0))"
proof -
  let ?subs = "subscribers_of (Broker_channels w) (str_split (data m) ! 1)"
  let ?txt = "str_join (drop 2 (str_split (data m)))"
  let ?w' = "publish_loop self ?txt ?subs w"
  have r: "on_recv self sender m w = Returned ?w'"
    using assms(2,3,4) by (rule on_recv_PUBLISH)
  have s: "new_sends self w ?w' = map (\<lambda>p. (p, \<lparr>data = ?txt, ttl = 60\<rparr>)) ?subs"
    using assms(1) by (rule new_sends_publish_loop)
  have "map fst (new_sends self w ?w') = ?subs"
    by (simp only: s) (simp add: comp_def)
  then have c: "count_list (map fst (new_sends self w ?w')) p = (if p \<in> set ?subs then 1 else 0)"
    for p using assms(5) by (simp add: count_list_distinct)
  from r s c publish_loop_channels [of self ?txt ?subs w] show ?thesis by blast
qed

theorem publish_fan_out_witness:
  "0 < length (brokers \<lparr>Broker_channels = [''c'' \<mapsto> [''subscriber1'', ''subscriber2'']],
        brokers = [\<lparr>broker_identity = ''broker'', listeners = [(''localhost'', 4000)], sent = []\<rparr>]\<rparr>)
   \<and> is_str (data \<lparr>data = ''PUBLISH c shared'', ttl = 60\<rparr>)
   \<and> startswith (data \<lparr>data = ''PUBLISH c shared'', ttl = 60\<rparr>) ''PUBLISH ''
   \<and> 3 \<le> length (str_split (data \<lparr>data = ''PUBLISH c shared'', ttl = 60\<rparr>))
   \<and> distinct [''subscriber1'', ''subscriber2'']
   \<and> (\<exists>w'. on_recv 0 ''subscriber1'' \<lparr>data = ''PUBLISH c shared'', ttl = 60\<rparr>
          \<lparr>Broker_channels = [''c'' \<mapsto> [''subscriber1'', ''subscriber2'']],
           brokers = [\<lparr>broker_identity = ''broker'', listeners = [(''localhost'', 4000)], sent = []\<rparr>]\<rparr>
          = Returned w'
        \<and> new_sends 0
             \<lparr>Broker_channels = [''c'' \<mapsto> [''subscriber1'', ''subscriber2'']],
              brokers = [\<lparr>broker_identity = ''broker'', listeners = [(''localhost'', 4000)], sent = []\<rparr>]\<rparr>
             w'
           = [(''subscriber1'', \<lparr>data = ''shared'', ttl = 60\<rparr>),
              (''subscriber2'', \<lparr>data = ''shared'', ttl = 60\<rparr>)])"
  using publish_fan_out
    [of 0 "\<lparr>Broker_channels = [''c'' \<mapsto> [''subscriber1'', ''subscriber2'']],
           brokers = [\<lparr>broker_identity = ''broker'', listeners = [(''localhost'', 4000)], sent = []\<rparr>]\<rparr>"
        "\<lparr>data = ''PUBLISH c shared'', ttl = 60\<rparr>" "''subscriber1''"]
  by (simp add: is_str_def subscribers_of_def) blast

section \<open>Claims about the subscriber\<close>

text \<open>
  C7, as claimed: on connect the subscriber sends one SUBSCRIBE command that lists its
  whole desired set, and afterwards the broker has it under exactly that set. It
  fails: for the desired set \<open>{x, y}\<close> two commands are sent, one for each channel; and
  a broker that still had the subscriber under \<open>z\<close> has it under \<open>z\<close> after the
  resync, although \<open>z\<close> is not in the desired set.
\<close>

theorem resync_sends_one_command_per_channel:
  "sub_sent (on_connect \<lparr>sub_broker_identity = ''broker'', sub_my_identity = ''subscriber1'',
          subscriptions = [''x'', ''y''], sub_sent = [], stdout = []\<rparr>)
      = [(''broker'', \<lparr>data = ''SUBSCRIBE x'', ttl = 60\<rparr>),
         (''broker'', \<lparr>data = ''SUBSCRIBE y'', ttl = 60\<rparr>)]
   \<and> subscribers_of (Broker_channels (final (broker_loop 0
        [Message_recv ''subscriber1'' \<lparr>data = ''SUBSCRIBE x'', ttl = 60\<rparr>,
         Message_recv ''subscriber1'' \<lparr>data = ''SUBSCRIBE y'', ttl = 60\<rparr>]
        \<lparr>Broker_channels = [''z'' \<mapsto> [''subscriber1'']],
         brokers = [\<lparr>broker_identity = ''broker'', listeners = [(''localhost'', 4000)],
                     sent = []\<rparr>]\<rparr>))) ''z''
      = [''subscriber1'']"
  by (simp add: on_connect_def subscribe_def encode_utf8_def pyset_add_def
      on_recv_def decode_utf8_def is_str_def self_channels_def lift_chans_def subscribers_of_def)

text \<open>
  C7, amended: on connect the subscriber sends one SUBSCRIBE command for each channel
  of its desired set, each naming that channel alone, and its desired set is
  unchanged. When the channel names have no space and the broker has handled these
  commands, in the order sent, it has handled them without an error; the subscriber is
  then registered under every channel of its desired set, under any other channel
  exactly if it was registered there before, and the registrations of the other peers
  are as they were.
\<close>

theorem resync_on_connect:
  assumes "\<forall>c \<in> set (subscriptions s). is_str c \<and> CHR '' '' \<notin> set c"
  shows "sub_new_sends s (on_connect s) =
           map (\<lambda>c. (sub_broker_identity s, \<lparr>data = ''SUBSCRIBE '' @ c, ttl = 60\<rparr>))
             (subscriptions s)
   \<and> subscriptions (on_connect s) = subscriptions s
   \<and> (\<exists>w'. broker_loop self
              (deliveries (sub_my_identity s) (sub_broker_identity s)
                 (sub_new_sends s (on_connect s))) w = Returned w'
         \<and> (\<forall>c. sub_my_identity s \<in> set (subscribers_of (Broker_channels w') c) \<longleftrightarrow>
                  c \<in> set (subscriptions s)
                  \<or> sub_my_identity s \<in> set (subscribers_of (Broker_channels w) c))
         \<and> (\<forall>c q. q \<noteq> sub_my_identity s \<longrightarrow>
                  (q \<in> set (subscribers_of (Broker_channels w') c) \<longleftrightarrow>
                   q \<in> set (subscribers_of (Broker_channels w) c))))"
proof -
  let ?me = "sub_my_identity s"
  let ?w' = "w\<lparr>Broker_channels := fold (registry_add ?me) (subscriptions s) (Broker_channels w)\<rparr>"
  have sends: "sub_new_sends s (on_connect s) =
      map (\<lambda>c. (sub_broker_identity s, \<lparr>data = ''SUBSCRIBE '' @ c, ttl = 60\<rparr>)) (subscriptions s)"
    by (rule sub_new_sends_on_connect)
  have subs: "subscriptions (on_connect s) = subscriptions s"
    by (simp add: on_connect_def on_connect_loop_subscriptions)
  have run: "broker_loop self
      (deliveries ?me (sub_broker_identity s) (sub_new_sends s (on_connect s))) w = Returned ?w'"
    using assms by (simp only: sends deliveries_subscribes broker_loop_subscribes)
  have mine: "?me \<in> set (subscribers_of (Broker_channels ?w') c) \<longleftrightarrow>
      c \<in> set (subscriptions s) \<or> ?me \<in> set (subscribers_of (Broker_channels w) c)" for c
    by (simp add: mem_fold_add)
  have others: "q \<noteq> ?me \<longrightarrow> (q \<in> set (subscribers_of (Broker_channels ?w') c) \<longleftrightarrow>
      q \<in> set (subscribers_of (Broker_channels w) c))" for c q
    by (simp add: mem_fold_add)
  from sends subs run mine others show ?thesis by blast
qed

theorem resync_on_connect_witness:
  "is_str ''x'' \<and> CHR '' '' \<notin> set ''x'' \<and> is_str ''y'' \<and> CHR '' '' \<notin> set ''y''
   \<and> sub_new_sends
        \<lparr>sub_broker_identity = ''broker'', sub_my_identity = ''subscriber1'',
          subscriptions = [''x'', ''y''], sub_sent = [], stdout = []\<rparr>
        (on_connect \<lparr>sub_broker_identity = ''broker'', sub_my_identity = ''subscriber1'',
          subscriptions = [''x'', ''y''], sub_sent = [], stdout = []\<rparr>)
      = [(''broker'', \<lparr>data = ''SUBSCRIBE x'', ttl = 60\<rparr>),
         (''broker'', \<lparr>data = ''SUBSCRIBE y'', ttl = 60\<rparr>)]
   \<and> (\<exists>w'. broker_loop 0
          (deliveries ''subscriber1'' ''broker''
             (sub_new_sends
                \<lparr>sub_broker_identity = ''broker'', sub_my_identity = ''subscriber1'',
                  subscriptions = [''x'', ''y''], sub_sent = [], stdout = []\<rparr>
                (on_connect \<lparr>sub_broker_identity = ''broker'', sub_my_identity = ''subscriber1'',
                  subscriptions = [''x'', ''y''], sub_sent = [], stdout = []\<rparr>)))
          (snd (Broker_init ''localhost'' 4000 ''broker'' world_init)) = Returned w'
        \<and> ''subscriber1'' \<in> set (subscribers_of (Broker_channels w') ''x'')
        \<and> ''subscriber1'' \<in> set (subscribers_of (Broker_channels w') ''y'')
        \<and> ''subscriber1'' \<notin> set (subscribers_of (Broker_channels w') ''z''))"
proof -
  let ?s = "\<lparr>sub_broker_identity = ''broker'', sub_my_identity = ''subscriber1'',
             subscriptions = [''x'', ''y''], sub_sent = [], stdout = []\<rparr>"
  let ?w = "snd (Broker_init ''localhost'' 4000 ''broker'' world_init)"
  have str: "is_str ''x''" "CHR '' '' \<notin> set ''x''" "is_str ''y''" "CHR '' '' \<notin> set ''y''"
    by (simp_all add: is_str_def)
  then have h: "\<forall>c \<in> set (subscriptions ?s). is_str c \<and> CHR '' '' \<notin> set c" by simp
  have before: "subscribers_of (Broker_channels ?w) c = []" for c
    by (simp add: Broker_init_def world_init_def subscribers_of_def)
  from resync_on_connect [OF h, of 0 ?w]
  obtain w' where sends: "sub_new_sends ?s (on_connect ?s) =
        map (\<lambda>c. (sub_broker_identity ?s, \<lparr>data = ''SUBSCRIBE '' @ c, ttl = 60\<rparr>))
          (subscriptions ?s)"
    and run: "broker_loop 0
        (deliveries (sub_my_identity ?s) (sub_broker_identity ?s)
           (sub_new_sends ?s (on_connect ?s))) ?w = Returned w'"
    and mine: "\<And>c. sub_my_identity ?s \<in> set (subscribers_of (Broker_channels w') c) \<longleftrightarrow>
        c \<in> set (subscriptions ?s)
        \<or> sub_my_identity ?s \<in> set (subscribers_of (Broker_channels ?w) c)"
    by blast
  have sends': "sub_new_sends ?s (on_connect ?s) =
      [(''broker'', \<lparr>data = ''SUBSCRIBE x'', ttl = 60\<rparr>),
       (''broker'', \<lparr>data = ''SUBSCRIBE y'', ttl = 60\<rparr>)]"
    by (simp only: sends) simp
  have run': "broker_loop 0 (deliveries ''subscriber1'' ''broker''
      (sub_new_sends ?s (on_connect ?s))) ?w = Returned w'"
    using run by simp
  have x: "''subscriber1'' \<in> set (subscribers_of (Broker_channels w') ''x'')"
    using mine [of "''x''"] by simp
  have y: "''subscriber1'' \<in> set (subscribers_of (Broker_channels w') ''y'')"
    using mine [of "''y''"] by simp
  have z: "''subscriber1'' \<notin> set (subscribers_of (Broker_channels w') ''z'')"
    using mine [of "''z''"] by (simp add: before)
  from str sends' run' x y z show ?thesis by blast
qed


text \<open>
  C10. For a channel that is not in the subscriber's desired set, \<open>unsubscribe\<close>
  raises KeyError, and the UNSUBSCRIBE command has been handed to the messaging layer
  before: the state at the raise has the command at the end of the sent messages and
  the desired set as it was.
\<close>

theorem unsubscribe_unknown_channel_raises_after_send:
  assumes "channel \<notin> set (subscriptions s)"
  shows "unsubscribe channel s =
     Raised KeyError
       (s\<lparr>sub_sent := sub_sent s @
            [(sub_broker_identity s, \<lparr>data = ''UNSUBSCRIBE '' @ channel, ttl = 60\<rparr>)]\<rparr>)"
  using assms by (simp add: unsubscribe_def pyset_remove_def encode_utf8_def Let_def)

theorem unsubscribe_unknown_channel_raises_after_send_witness:
  "''b'' \<notin> set (subscriptions \<lparr>sub_broker_identity = ''broker'', sub_my_identity = ''subscriber1'',
        subscriptions = [''a''], sub_sent = [], stdout = []\<rparr>)
   \<and> unsubscribe ''b'' \<lparr>sub_broker_identity = ''broker'', sub_my_identity = ''subscriber1'',
        subscriptions = [''a''], sub_sent = [], stdout = []\<rparr>
     = Raised KeyError \<lparr>sub_broker_identity = ''broker'', sub_my_identity = ''subscriber1'',
        subscriptions = [''a''], sub_sent = [(''broker'', \<lparr>data = ''UNSUBSCRIBE b'', ttl = 60\<rparr>)],
        stdout = []\<rparr>"
  using unsubscribe_unknown_channel_raises_after_send
    [of "''b''" "\<lparr>sub_broker_identity = ''broker'', sub_my_identity = ''subscriber1'',
        subscriptions = [''a''], sub_sent = [], stdout = []\<rparr>"]
  by simp

end
